theory Spec2Isabelle
  imports Complex_Main
begin

section \<open>JavaScript numbers\<close>

text \<open>
  The signal engine computes on JavaScript numbers. A number is modelled by its value:
  a finite real, one of the two infinities, or NaN. Finite arithmetic is exact real
  arithmetic: rounding to 53 bits, overflow to an infinity and the sign of zero are not
  modelled (a zero divisor counts as \<open>+0\<close>). The special values follow IEEE 754 as
  ECMAScript applies it: NaN is contagious, every comparison with NaN is false,
  \<open>0/0\<close> and \<open>Infinity - Infinity\<close> are NaN, \<open>x/0\<close> is an infinity.
\<close>

datatype jsnum = Fin real | PInf | NInf | NaN

fun js_neg :: "jsnum \<Rightarrow> jsnum" where
  "js_neg (Fin a) = Fin (- a)"
| "js_neg PInf = NInf"
| "js_neg NInf = PInf"
| "js_neg NaN = NaN"

fun js_add :: "jsnum \<Rightarrow> jsnum \<Rightarrow> jsnum" where
  "js_add NaN y = NaN"
| "js_add x NaN = NaN"
| "js_add (Fin a) (Fin b) = Fin (a + b)"
| "js_add PInf NInf = NaN"
| "js_add NInf PInf = NaN"
| "js_add PInf y = PInf"
| "js_add x PInf = PInf"
| "js_add NInf y = NInf"
| "js_add x NInf = NInf"

definition js_sub :: "jsnum \<Rightarrow> jsnum \<Rightarrow> jsnum" where
  "js_sub x y = js_add x (js_neg y)"

fun js_mul :: "jsnum \<Rightarrow> jsnum \<Rightarrow> jsnum" where
  "js_mul NaN y = NaN"
| "js_mul x NaN = NaN"
| "js_mul (Fin a) (Fin b) = Fin (a * b)"
| "js_mul (Fin a) PInf = (if a = 0 then NaN else if 0 < a then PInf else NInf)"
| "js_mul (Fin a) NInf = (if a = 0 then NaN else if 0 < a then NInf else PInf)"
| "js_mul PInf (Fin b) = (if b = 0 then NaN else if 0 < b then PInf else NInf)"
| "js_mul NInf (Fin b) = (if b = 0 then NaN else if 0 < b then NInf else PInf)"
| "js_mul PInf PInf = PInf"
| "js_mul PInf NInf = NInf"
| "js_mul NInf PInf = NInf"
| "js_mul NInf NInf = PInf"

fun js_div :: "jsnum \<Rightarrow> jsnum \<Rightarrow> jsnum" where
  "js_div NaN y = NaN"
| "js_div x NaN = NaN"
| "js_div (Fin a) (Fin b) =
     (if b = 0 then (if a = 0 then NaN else if 0 < a then PInf else NInf)
      else Fin (a / b))"
| "js_div (Fin a) PInf = Fin 0"
| "js_div (Fin a) NInf = Fin 0"
| "js_div PInf (Fin b) = (if 0 \<le> b then PInf else NInf)"
| "js_div NInf (Fin b) = (if 0 \<le> b then NInf else PInf)"
| "js_div PInf PInf = NaN"
| "js_div PInf NInf = NaN"
| "js_div NInf PInf = NaN"
| "js_div NInf NInf = NaN"

fun js_lt :: "jsnum \<Rightarrow> jsnum \<Rightarrow> bool" where
  "js_lt NaN y = False"
| "js_lt x NaN = False"
| "js_lt (Fin a) (Fin b) = (a < b)"
| "js_lt x NInf = False"
| "js_lt NInf y = True"
| "js_lt PInf y = False"
| "js_lt x PInf = True"

fun js_le :: "jsnum \<Rightarrow> jsnum \<Rightarrow> bool" where
  "js_le NaN y = False"
| "js_le x NaN = False"
| "js_le (Fin a) (Fin b) = (a \<le> b)"
| "js_le NInf y = True"
| "js_le x PInf = True"
| "js_le x NInf = False"
| "js_le PInf y = False"

definition js_gt :: "jsnum \<Rightarrow> jsnum \<Rightarrow> bool" where
  "js_gt x y = js_lt y x"

definition js_ge :: "jsnum \<Rightarrow> jsnum \<Rightarrow> bool" where
  "js_ge x y = js_le y x"

text \<open>\<open>Math.min\<close> and \<open>Math.max\<close> return NaN as soon as one argument is NaN.\<close>

definition Math_min :: "jsnum \<Rightarrow> jsnum \<Rightarrow> jsnum" where
  "Math_min x y = (if x = NaN \<or> y = NaN then NaN else if js_le x y then x else y)"

definition Math_max :: "jsnum \<Rightarrow> jsnum \<Rightarrow> jsnum" where
  "Math_max x y = (if x = NaN \<or> y = NaN then NaN else if js_le x y then y else x)"

text \<open>\<open>Math.round\<close> rounds to the nearest integer, a half towards \<open>+Infinity\<close>.\<close>

fun Math_round :: "jsnum \<Rightarrow> jsnum" where
  "Math_round (Fin a) = Fin (of_int \<lfloor>a + 1 / 2\<rfloor>)"
| "Math_round x = x"

fun Math_sqrt :: "jsnum \<Rightarrow> jsnum" where
  "Math_sqrt (Fin a) = (if a < 0 then NaN else Fin (sqrt a))"
| "Math_sqrt PInf = PInf"
| "Math_sqrt NInf = NaN"
| "Math_sqrt NaN = NaN"

text \<open>\<open>Math.pow\<close> at a natural exponent; \<open>Math.pow(x, 0)\<close> is 1 for every \<open>x\<close>.\<close>

primrec Math_pow :: "jsnum \<Rightarrow> nat \<Rightarrow> jsnum" where
  "Math_pow x 0 = Fin 1"
| "Math_pow x (Suc n) = js_mul x (Math_pow x n)"

text \<open>
  A value that may be \<open>undefined\<close> is an option. \<open>truthy\<close> is the test that
  \<open>if (x)\<close>, \<open>x && e\<close> and \<open>x || e\<close> apply to such a number: \<open>undefined\<close>, zero and
  NaN are falsy. \<open>toNumber\<close> is the conversion a comparison applies to \<open>undefined\<close>.
\<close>

fun truthy :: "jsnum option \<Rightarrow> bool" where
  "truthy None = False"
| "truthy (Some NaN) = False"
| "truthy (Some (Fin a)) = (a \<noteq> 0)"
| "truthy (Some x) = True"

fun toNumber :: "jsnum option \<Rightarrow> jsnum" where
  "toNumber None = NaN"
| "toNumber (Some x) = x"

text \<open>\<open>xs[xs.length - 1]\<close>: the last element, \<open>undefined\<close> on an empty array.\<close>

definition latest :: "'a list \<Rightarrow> 'a option" where
  "latest xs = (if xs = [] then None else Some (last xs))"

text \<open>\<open>xs.reduce((a, b) => a + b, 0)\<close>.\<close>

definition js_sum :: "jsnum list \<Rightarrow> jsnum" where
  "js_sum xs = foldl js_add (Fin 0) xs"

text \<open>\<open>xs.slice(-n)\<close>: the last \<open>n\<close> elements (all of them when there are fewer).\<close>

definition slice_last :: "nat \<Rightarrow> 'a list \<Rightarrow> 'a list" where
  "slice_last n xs = drop (length xs - n) xs"

subsection \<open>Strings\<close>

fun startsWith :: "string \<Rightarrow> string \<Rightarrow> bool" where
  "startsWith s [] = True"
| "startsWith [] (p # ps) = False"
| "startsWith (c # cs) (p # ps) = (c = p \<and> startsWith cs ps)"

text \<open>\<open>s.includes(p)\<close>: \<open>p\<close> occurs in \<open>s\<close> as a contiguous substring.\<close>

fun str_includes :: "string \<Rightarrow> string \<Rightarrow> bool" where
  "str_includes [] p = (p = [])"
| "str_includes (c # cs) p = (startsWith (c # cs) p \<or> str_includes cs p)"

text \<open>\<open>xs.join(sep)\<close>.\<close>

fun join :: "string \<Rightarrow> string list \<Rightarrow> string" where
  "join sep [] = []"
| "join sep [x] = x"
| "join sep (x # y # ys) = x @ sep @ join sep (y # ys)"

section \<open>Data model\<close>

datatype direction = BUY | SELL | HOLD

text \<open>
  A MACD entry \<open>{MACD, signal, histogram}\<close>; its field \<open>signal\<close> is named
  \<open>signalLine\<close> here, \<open>signal\<close> being the direction field of a \<open>TradingSignal\<close>. The
  fields are numbers in the \<open>TradingSignal\<close> and optional numbers in the library's
  output. A Bollinger entry is kept with the three fields that \<open>TradingSignal\<close>
  declares.
\<close>

record 'a macd_rec =
  MACD :: 'a
  signalLine :: 'a
  histogram :: 'a

record bb_rec =
  upper :: jsnum
  middle :: jsnum
  lower :: jsnum

record indicators =
  rsi :: jsnum
  macd :: "jsnum macd_rec option"
  bollingerBands :: "bb_rec option"
  sma20 :: jsnum
  ema12 :: jsnum

text \<open>A \<open>Date\<close> is its time value, milliseconds since the epoch.\<close>

type_synonym date = int

record TradingSignal =
  signal :: direction
  confidence :: jsnum
  reason :: string
  indicators :: indicators
  timestamp :: date

datatype risk_level = LOW | MEDIUM | HIGH

record RiskAssessment =
  riskLevel :: risk_level
  volatility :: jsnum
  recommendation :: string

section \<open>What the engine imports\<close>

text \<open>
  \<open>RSI\<close>, \<open>MACD\<close>, \<open>BollingerBands\<close>, \<open>SMA\<close> and \<open>EMA\<close> come from the package
  \<open>technicalindicators\<close>, and \<open>toFixed\<close> from the JavaScript runtime; neither is part
  of the repository. The engine is modelled over any implementation of them: a
  \<open>calculate\<close> function returns an array or throws, and the only thing the engine does
  with a thrown value is to catch it. The fields of a MACD entry are optional in the
  package (\<open>signal\<close> and \<open>histogram\<close> are missing until their window is filled).
\<close>

datatype js_exn = Thrown string

record env =
  RSI_calculate :: "jsnum list \<Rightarrow> nat \<Rightarrow> js_exn + jsnum list"
  MACD_calculate :: "jsnum list \<Rightarrow> nat \<Rightarrow> nat \<Rightarrow> nat \<Rightarrow> bool \<Rightarrow> bool
                       \<Rightarrow> js_exn + jsnum option macd_rec list"
  BollingerBands_calculate :: "jsnum list \<Rightarrow> nat \<Rightarrow> jsnum \<Rightarrow> js_exn + bb_rec list"
  SMA_calculate :: "jsnum list \<Rightarrow> nat \<Rightarrow> js_exn + jsnum list"
  EMA_calculate :: "jsnum list \<Rightarrow> nat \<Rightarrow> js_exn + jsnum list"
  toFixed :: "jsnum \<Rightarrow> nat \<Rightarrow> string"

section \<open>getTradeSignal\<close>

text \<open>The indicator snapshot of the two early results: nothing computed.\<close>

definition noIndicators :: indicators where
  "noIndicators = \<lparr>rsi = Fin 0, macd = None, bollingerBands = None,
                    sma20 = Fin 0, ema12 = Fin 0\<rparr>"

text \<open>The result of the guard \<open>prices.length < 50\<close>.\<close>

definition insufficientData :: "date \<Rightarrow> TradingSignal" where
  "insufficientData now =
     \<lparr>signal = HOLD, confidence = Fin 0,
      reason = ''Insufficient data for analysis (minimum 50 data points required)'',
      indicators = noIndicators, timestamp = now\<rparr>"

text \<open>The result of the \<open>catch\<close> block.\<close>

definition errorSignal :: "date \<Rightarrow> TradingSignal" where
  "errorSignal now =
     \<lparr>signal = HOLD, confidence = Fin 0,
      reason = ''Error computing signal. Please try again.'',
      indicators = noIndicators, timestamp = now\<rparr>"

text \<open>The latest value of each indicator and the current price ("Get latest values").\<close>

record latest_values =
  latestRSI :: "jsnum option"
  latestMACD :: "jsnum option macd_rec option"
  latestBB :: "bb_rec option"
  latestSMA20 :: "jsnum option"
  latestEMA12 :: "jsnum option"
  currentPrice :: "jsnum option"

text \<open>
  "Calculate technical indicators" and "Get latest values": the five library calls in
  the order of the source; the first one that throws ends the computation.
\<close>

definition computeLatest :: "env \<Rightarrow> jsnum list \<Rightarrow> js_exn + latest_values" where
  "computeLatest e prices =
     (case RSI_calculate e prices 14 of Inl x \<Rightarrow> Inl x | Inr rsiValues \<Rightarrow>
      case MACD_calculate e prices 12 26 9 False False of Inl x \<Rightarrow> Inl x | Inr macdValues \<Rightarrow>
      case BollingerBands_calculate e prices 20 (Fin 2) of Inl x \<Rightarrow> Inl x | Inr bbValues \<Rightarrow>
      case SMA_calculate e prices 20 of Inl x \<Rightarrow> Inl x | Inr sma20Values \<Rightarrow>
      case EMA_calculate e prices 12 of Inl x \<Rightarrow> Inl x | Inr ema12Values \<Rightarrow>
        Inr \<lparr>latestRSI = latest rsiValues, latestMACD = latest macdValues,
             latestBB = latest bbValues, latestSMA20 = latest sma20Values,
             latestEMA12 = latest ema12Values, currentPrice = latest prices\<rparr>)"

text \<open>
  The state of the vote: \<open>buySignals\<close>, \<open>sellSignals\<close> and \<open>reasons\<close>. The two scores
  start at 0 and grow by 1 or 2 at most five times, so they are natural numbers, which
  the number type holds exactly.
\<close>

record votes =
  buySignals :: nat
  sellSignals :: nat
  reasons :: "string list"

definition noVotes :: votes where
  "noVotes = \<lparr>buySignals = 0, sellSignals = 0, reasons = []\<rparr>"

definition voteBuy :: "nat \<Rightarrow> string \<Rightarrow> votes \<Rightarrow> votes" where
  "voteBuy n r v = v\<lparr>buySignals := buySignals v + n, reasons := reasons v @ [r]\<rparr>"

definition voteSell :: "nat \<Rightarrow> string \<Rightarrow> votes \<Rightarrow> votes" where
  "voteSell n r v = v\<lparr>sellSignals := sellSignals v + n, reasons := reasons v @ [r]\<rparr>"

text \<open>"RSI Analysis".\<close>

definition rsiAnalysis :: "env \<Rightarrow> jsnum option \<Rightarrow> votes \<Rightarrow> votes" where
  "rsiAnalysis e r v =
     (if truthy r \<and> js_lt (toNumber r) (Fin 30)
      then voteBuy 2 (''RSI oversold at '' @ toFixed e (toNumber r) 2) v
      else if truthy r \<and> js_gt (toNumber r) (Fin 70)
      then voteSell 2 (''RSI overbought at '' @ toFixed e (toNumber r) 2) v
      else v)"

text \<open>"MACD Analysis": only an entry with its three fields defined votes.\<close>

definition macdAnalysis :: "jsnum option macd_rec option \<Rightarrow> votes \<Rightarrow> votes" where
  "macdAnalysis m v =
     (case m of
        None \<Rightarrow> v
      | Some r \<Rightarrow>
          (case (MACD r, signalLine r, histogram r) of
             (Some ml, Some sg, Some h) \<Rightarrow>
               if js_gt ml sg \<and> js_gt h (Fin 0) then voteBuy 1 ''MACD bullish crossover'' v
               else if js_lt ml sg \<and> js_lt h (Fin 0)
               then voteSell 1 ''MACD bearish crossover'' v
               else v
           | _ \<Rightarrow> v))"

text \<open>"Bollinger Bands Analysis".\<close>

definition bollingerAnalysis :: "jsnum option \<Rightarrow> bb_rec option \<Rightarrow> votes \<Rightarrow> votes" where
  "bollingerAnalysis p b v =
     (case b of
        None \<Rightarrow> v
      | Some bb \<Rightarrow>
          if js_le (toNumber p) (lower bb)
          then voteBuy 1 ''Price touching lower Bollinger Band'' v
          else if js_ge (toNumber p) (upper bb)
          then voteSell 1 ''Price touching upper Bollinger Band'' v
          else v)"

text \<open>"Moving Average Analysis".\<close>

definition maAnalysis :: "jsnum option \<Rightarrow> jsnum option \<Rightarrow> jsnum option \<Rightarrow> votes \<Rightarrow> votes"
  where
  "maAnalysis p s m v =
     (if js_gt (toNumber p) (toNumber s) \<and> js_gt (toNumber m) (toNumber s)
      then voteBuy 1 ''Price above SMA20 with EMA12 bullish'' v
      else if js_lt (toNumber p) (toNumber s) \<and> js_lt (toNumber m) (toNumber s)
      then voteSell 1 ''Price below SMA20 with EMA12 bearish'' v
      else v)"

text \<open>The votes as they stand just before "Volume Analysis".\<close>

definition indicatorVotes :: "env \<Rightarrow> latest_values \<Rightarrow> votes" where
  "indicatorVotes e l =
     maAnalysis (currentPrice l) (latestSMA20 l) (latestEMA12 l)
       (bollingerAnalysis (currentPrice l) (latestBB l)
         (macdAnalysis (latestMACD l)
           (rsiAnalysis e (latestRSI l) noVotes)))"

text \<open>
  The test of "Volume Analysis": the last volume exceeds one and a half times the mean
  of the last twenty volumes.
\<close>

definition volumeSpike :: "jsnum list \<Rightarrow> bool" where
  "volumeSpike vs =
     (let avgVolume = js_div (js_sum (slice_last 20 vs)) (Fin 20);
          currentVolume = toNumber (latest vs)
      in js_gt currentVolume (js_mul avgVolume (Fin (3 / 2))))"

text \<open>"Volume Analysis (if available)".\<close>

definition volumeAnalysis :: "jsnum list option \<Rightarrow> votes \<Rightarrow> votes" where
  "volumeAnalysis volumes v =
     (case volumes of
        None \<Rightarrow> v
      | Some vs \<Rightarrow>
          if 20 \<le> length vs \<and> volumeSpike vs
          then (if sellSignals v < buySignals v
                then voteBuy 1 ''High volume supporting bullish trend'' v
                else if buySignals v < sellSignals v
                then voteSell 1 ''High volume supporting bearish trend'' v
                else v)
          else v)"

text \<open>The share of the winning side, as \<open>Math.min(90, (n / Math.max(total, 1)) * 100)\<close>.\<close>

definition share :: "nat \<Rightarrow> nat \<Rightarrow> jsnum" where
  "share n totalSignals =
     Math_min (Fin 90)
       (js_mul (js_div (Fin (real n)) (Math_max (Fin (real totalSignals)) (Fin 1)))
          (Fin 100))"

definition buyReason :: "string \<Rightarrow> bool" where
  "buyReason r = (str_includes r ''RSI oversold'' \<or> str_includes r ''MACD bullish''
                  \<or> str_includes r ''lower Bollinger'')"

definition sellReason :: "string \<Rightarrow> bool" where
  "sellReason r = (str_includes r ''RSI overbought'' \<or> str_includes r ''MACD bearish''
                   \<or> str_includes r ''upper Bollinger'')"

text \<open>"Determine final signal": \<open>signal\<close>, \<open>confidence\<close> (not yet rounded), \<open>finalReason\<close>.\<close>

definition finalSignal :: "votes \<Rightarrow> direction \<times> jsnum \<times> string" where
  "finalSignal v =
     (let totalSignals = buySignals v + sellSignals v in
      if sellSignals v < buySignals v \<and> 2 \<le> buySignals v
      then (BUY, share (buySignals v) totalSignals,
            ''Strong buy signal: '' @ join '', '' (filter buyReason (reasons v)))
      else if buySignals v < sellSignals v \<and> 2 \<le> sellSignals v
      then (SELL, share (sellSignals v) totalSignals,
            ''Strong sell signal: '' @ join '', '' (filter sellReason (reasons v)))
      else (HOLD, Fin 50,
            ''Mixed signals or insufficient conviction. Consider waiting for clearer trend.''))"

text \<open>
  \<open>x || 0\<close> on a number and \<open>x || null\<close> on an object that may be \<open>undefined\<close>; the
  MACD entry goes to the snapshot only with its three fields defined.
\<close>

definition orZero :: "jsnum option \<Rightarrow> jsnum" where
  "orZero x = (if truthy x then toNumber x else Fin 0)"

definition macdSnapshot :: "jsnum option macd_rec option \<Rightarrow> jsnum macd_rec option" where
  "macdSnapshot m =
     (case m of
        None \<Rightarrow> None
      | Some r \<Rightarrow>
          (case (MACD r, signalLine r, histogram r) of
             (Some ml, Some sg, Some h) \<Rightarrow> Some \<lparr>MACD = ml, signalLine = sg, histogram = h\<rparr>
           | _ \<Rightarrow> None))"

definition snapshot :: "latest_values \<Rightarrow> indicators" where
  "snapshot l =
     \<lparr>rsi = orZero (latestRSI l), macd = macdSnapshot (latestMACD l),
      bollingerBands = latestBB l, sma20 = orZero (latestSMA20 l),
      ema12 = orZero (latestEMA12 l)\<rparr>"

text \<open>The final votes of a run whose library calls returned \<open>l\<close>.\<close>

definition finalVotes :: "env \<Rightarrow> latest_values \<Rightarrow> jsnum list option \<Rightarrow> votes" where
  "finalVotes e l volumes = volumeAnalysis volumes (indicatorVotes e l)"

text \<open>
  The body of the \<open>try\<close> block. \<open>now\<close> is what \<open>new Date()\<close> reads from the clock
  when the result is built.
\<close>

definition getTradeSignal_try ::
  "env \<Rightarrow> date \<Rightarrow> jsnum list \<Rightarrow> jsnum list option \<Rightarrow> js_exn + TradingSignal" where
  "getTradeSignal_try e now prices volumes =
     (if length prices < 50 then Inr (insufficientData now)
      else case computeLatest e prices of
             Inl x \<Rightarrow> Inl x
           | Inr l \<Rightarrow>
               (case finalSignal (finalVotes e l volumes) of
                  (sig, conf, finalReason) \<Rightarrow>
                    Inr \<lparr>signal = sig, confidence = Math_round conf, reason = finalReason,
                         indicators = snapshot l, timestamp = now\<rparr>))"

definition getTradeSignal ::
  "env \<Rightarrow> date \<Rightarrow> jsnum list \<Rightarrow> jsnum list option \<Rightarrow> TradingSignal" where
  "getTradeSignal e now prices volumes =
     (case getTradeSignal_try e now prices volumes of
        Inl x \<Rightarrow> errorSignal now
      | Inr s \<Rightarrow> s)"

section \<open>getRiskAssessment\<close>

text \<open>
  \<open>prices.slice(1).map((price, i) => (price - prices[i]) / prices[i])\<close>: each price
  after the first against its predecessor.
\<close>

definition returnsOf :: "jsnum list \<Rightarrow> jsnum list" where
  "returnsOf prices =
     map (\<lambda>(price, prev). js_div (js_sub price prev) prev) (zip (drop 1 prices) prices)"

text \<open>"Calculate volatility (standard deviation of returns)", in percent.\<close>

definition volatilityOf :: "jsnum list \<Rightarrow> jsnum" where
  "volatilityOf prices =
     (let returns = returnsOf prices;
          n = Fin (real (length returns));
          avgReturn = js_div (js_sum returns) n;
          variance = js_div (foldl (\<lambda>a b. js_add a (Math_pow (js_sub b avgReturn) 2))
                               (Fin 0) returns) n
      in js_mul (Math_sqrt variance) (Fin 100))"

text \<open>The tier and the text chosen by the volatility alone.\<close>

definition baseRisk :: "jsnum \<Rightarrow> risk_level \<times> string" where
  "baseRisk vol =
     (if js_lt vol (Fin 2)
      then (LOW, ''Market showing low volatility. Good for conservative strategies.'')
      else if js_lt vol (Fin 5)
      then (MEDIUM, ''Moderate volatility detected. Use appropriate position sizing.'')
      else (HIGH, ''High volatility warning! Consider reducing position size or waiting for stability.''))"

text \<open>"Adjust recommendation based on signal confidence".\<close>

definition adjust :: "TradingSignal \<Rightarrow> risk_level \<times> string \<Rightarrow> risk_level \<times> string" where
  "adjust s rr =
     (case rr of (lvl, rec) \<Rightarrow>
        if js_lt (confidence s) (Fin 60)
        then (if lvl = LOW then MEDIUM else HIGH,
              rec @ '' Low signal confidence suggests increased caution.'')
        else (lvl, rec))"

text \<open>The result of the \<open>catch\<close> block.\<close>

definition riskFallback :: RiskAssessment where
  "riskFallback =
     \<lparr>riskLevel = HIGH, volatility = Fin 0,
      recommendation = ''Unable to assess risk. Exercise maximum caution.''\<rparr>"

text \<open>
  The body of the \<open>try\<close> block. Nothing in it throws: arithmetic on numbers yields NaN
  or an infinity where it is undefined, \<open>reduce\<close> is given an initial value, and
  \<open>prices[i]\<close> is read within range.
\<close>

definition getRiskAssessment_try :: "jsnum list \<Rightarrow> TradingSignal \<Rightarrow> js_exn + RiskAssessment"
  where
  "getRiskAssessment_try prices s =
     (let vol = volatilityOf prices in
      case adjust s (baseRisk vol) of
        (lvl, rec) \<Rightarrow>
          Inr \<lparr>riskLevel = lvl,
               volatility = js_div (Math_round (js_mul vol (Fin 100))) (Fin 100),
               recommendation = rec\<rparr>)"

definition getRiskAssessment :: "jsnum list \<Rightarrow> TradingSignal \<Rightarrow> RiskAssessment" where
  "getRiskAssessment prices s =
     (case getRiskAssessment_try prices s of
        Inl x \<Rightarrow> riskFallback
      | Inr r \<Rightarrow> r)"

section \<open>The indicators as the specification describes them\<close>

text \<open>
  Modelled from the spec: the package \<open>technicalindicators\<close> is not part of the
  repository, so the five \<open>calculate\<close> functions are written from the specification's
  description of the indicator engine (section 4.1), in the exact arithmetic of
  \<open>jsnum\<close>: SMA is the mean of each window; EMA is seeded with the mean of the first
  window and smoothed with \<open>2 / (period + 1)\<close>; RSI is Wilder's smoothed average of
  gains and losses over the price-to-price deltas; the MACD line is EMA(fast) - EMA(slow),
  its signal the EMA of the line and its histogram their difference; the Bollinger
  middle is the SMA and the bands lie \<open>stdDev\<close> population standard deviations from it.
  An indicator whose window exceeds the series yields no entry. None of them throws.
\<close>

definition mean :: "jsnum list \<Rightarrow> jsnum" where
  "mean xs = js_div (js_sum xs) (Fin (real (length xs)))"

text \<open>The windows of \<open>n\<close> consecutive values, oldest first.\<close>

fun windows :: "nat \<Rightarrow> 'a list \<Rightarrow> 'a list list" where
  "windows n [] = []"
| "windows n (x # xs) =
     (if 0 < n \<and> n \<le> length (x # xs) then take n (x # xs) # windows n xs else [])"

definition sma :: "jsnum list \<Rightarrow> nat \<Rightarrow> jsnum list" where
  "sma values period = map mean (windows period values)"

text \<open>One step of the smoothing: \<open>(value - previous) * k + previous\<close>.\<close>

definition ema_step :: "jsnum \<Rightarrow> jsnum \<Rightarrow> jsnum \<Rightarrow> jsnum" where
  "ema_step k prev x = js_add (js_mul (js_sub x prev) k) prev"

fun ema_run :: "jsnum \<Rightarrow> jsnum \<Rightarrow> jsnum list \<Rightarrow> jsnum list" where
  "ema_run k prev [] = []"
| "ema_run k prev (x # xs) = ema_step k prev x # ema_run k (ema_step k prev x) xs"

definition ema :: "jsnum list \<Rightarrow> nat \<Rightarrow> jsnum list" where
  "ema values period =
     (if period = 0 \<or> length values < period then []
      else mean (take period values)
           # ema_run (Fin (2 / (real period + 1))) (mean (take period values))
               (drop period values))"

definition deltas :: "jsnum list \<Rightarrow> jsnum list" where
  "deltas values = map (\<lambda>(cur, prev). js_sub cur prev) (zip (drop 1 values) values)"

definition gain :: "jsnum \<Rightarrow> jsnum" where
  "gain d = (if js_gt d (Fin 0) then d else Fin 0)"

definition loss :: "jsnum \<Rightarrow> jsnum" where
  "loss d = (if js_lt d (Fin 0) then js_neg d else Fin 0)"

text \<open>\<open>100 - 100 / (1 + avgGain / avgLoss)\<close>; without losses the index is at its top.\<close>

definition rsi_value :: "jsnum \<Rightarrow> jsnum \<Rightarrow> jsnum" where
  "rsi_value avgGain avgLoss =
     (if avgLoss = Fin 0 then Fin 100
      else js_sub (Fin 100) (js_div (Fin 100) (js_add (Fin 1) (js_div avgGain avgLoss))))"

text \<open>Wilder's smoothing: \<open>(previous * (period - 1) + current) / period\<close>.\<close>

definition wilder :: "nat \<Rightarrow> jsnum \<Rightarrow> jsnum \<Rightarrow> jsnum" where
  "wilder period prev cur =
     js_div (js_add (js_mul prev (Fin (real period - 1))) cur) (Fin (real period))"

fun rsi_run :: "nat \<Rightarrow> jsnum \<Rightarrow> jsnum \<Rightarrow> jsnum list \<Rightarrow> jsnum list" where
  "rsi_run period g l [] = []"
| "rsi_run period g l (d # ds) =
     rsi_value (wilder period g (gain d)) (wilder period l (loss d))
     # rsi_run period (wilder period g (gain d)) (wilder period l (loss d)) ds"

definition rsi_series :: "jsnum list \<Rightarrow> nat \<Rightarrow> jsnum list" where
  "rsi_series values period =
     (if period = 0 \<or> length (deltas values) < period then []
      else rsi_value (mean (map gain (take period (deltas values))))
             (mean (map loss (take period (deltas values))))
           # rsi_run period (mean (map gain (take period (deltas values))))
               (mean (map loss (take period (deltas values))))
               (drop period (deltas values)))"

text \<open>
  The MACD entries start where the slow average does; \<open>signal\<close> and \<open>histogram\<close> are
  missing until the signal average has its window.
\<close>

definition macd_series ::
  "jsnum list \<Rightarrow> nat \<Rightarrow> nat \<Rightarrow> nat \<Rightarrow> jsnum option macd_rec list" where
  "macd_series values fastPeriod slowPeriod signalPeriod =
     (let slow = ema values slowPeriod;
          fast = slice_last (length slow) (ema values fastPeriod);
          line = map (\<lambda>(f, s). js_sub f s) (zip fast slow);
          sig = ema line signalPeriod;
          sigs = replicate (length line - length sig) None @ map Some sig
      in map (\<lambda>(m, s). \<lparr>MACD = Some m, signalLine = s,
                          histogram = map_option (\<lambda>t. js_sub m t) s\<rparr>) (zip line sigs))"

definition stddev :: "jsnum list \<Rightarrow> jsnum" where
  "stddev xs =
     (let m = mean xs
      in Math_sqrt (mean (map (\<lambda>x. Math_pow (js_sub x m) 2) xs)))"

definition bollinger :: "jsnum \<Rightarrow> jsnum list \<Rightarrow> bb_rec" where
  "bollinger width w =
     \<lparr>upper = js_add (mean w) (js_mul width (stddev w)), middle = mean w,
      lower = js_sub (mean w) (js_mul width (stddev w))\<rparr>"

definition bb_series :: "jsnum list \<Rightarrow> nat \<Rightarrow> jsnum \<Rightarrow> bb_rec list" where
  "bb_series values period width = map (bollinger width) (windows period values)"

text \<open>
  Modelled from the ECMAScript definition, the runtime not being part of the repository:
  \<open>x.toFixed(f)\<close> for the values below \<open>10^21\<close>: the decimal expansion of the nearest
  multiple of \<open>10^-f\<close> (a tie goes to the larger magnitude), with at least one digit
  before the point.
\<close>

definition digit :: "nat \<Rightarrow> char" where
  "digit d = ''0123456789'' ! (d mod 10)"

function decimal :: "nat \<Rightarrow> string" where
  "decimal n = (if n < 10 then [digit n] else decimal (n div 10) @ [digit n])"
  by pat_completeness auto
termination
  by (relation "measure id") auto

declare decimal.simps [simp del]

fun numberToFixed :: "jsnum \<Rightarrow> nat \<Rightarrow> string" where
  "numberToFixed NaN f = ''NaN''"
| "numberToFixed PInf f = ''Infinity''"
| "numberToFixed NInf f = ''-Infinity''"
| "numberToFixed (Fin a) f =
     (let ds = decimal (nat \<lfloor>\<bar>a\<bar> * 10 ^ f + 1 / 2\<rfloor>);
          padded = replicate (Suc f - length ds) (CHR ''0'') @ ds;
          whole = take (length padded - f) padded;
          frac = drop (length padded - f) padded
      in (if a < 0 then ''-'' else []) @ whole @ (if f = 0 then [] else ''.'' @ frac))"

text \<open>
  Modelled from the spec: the package as one value, built from the functions above; the
  two flags of \<open>MACD.calculate\<close> ask for exponential averages, the only kind modelled.
\<close>

definition specLib :: env where
  "specLib =
     \<lparr>RSI_calculate = (\<lambda>values period. Inr (rsi_series values period)),
      MACD_calculate = (\<lambda>values fastPeriod slowPeriod signalPeriod oscSimple sigSimple.
                          Inr (macd_series values fastPeriod slowPeriod signalPeriod)),
      BollingerBands_calculate = (\<lambda>values period width. Inr (bb_series values period width)),
      SMA_calculate = (\<lambda>values period. Inr (sma values period)),
      EMA_calculate = (\<lambda>values period. Inr (ema values period)),
      toFixed = numberToFixed\<rparr>"

text \<open>Sixty prices falling in unit steps, from 60 down to 1.\<close>

definition falling60 :: "jsnum list" where
  "falling60 = map Fin
     [60, 59, 58, 57, 56, 55, 54, 53, 52, 51, 50, 49, 48, 47, 46, 45, 44, 43, 42, 41,
      40, 39, 38, 37, 36, 35, 34, 33, 32, 31, 30, 29, 28, 27, 26, 25, 24, 23, 22, 21,
      20, 19, 18, 17, 16, 15, 14, 13, 12, 11, 10, 9, 8, 7, 6, 5, 4, 3, 2, 1]"

text \<open>Fifty equal prices.\<close>

definition flat50 :: "jsnum list" where
  "flat50 = replicate 50 (Fin 100)"

text \<open>Forty-seven equal prices, then a dip of two days and a jump above the level.\<close>

definition jolt50 :: "jsnum list" where
  "jolt50 = replicate 47 (Fin 100) @ [Fin 99, Fin 99, Fin 101]"

text \<open>Forty-seven equal prices, then a fall of two in three days.\<close>

definition dip50 :: "jsnum list" where
  "dip50 = replicate 47 (Fin 100) @ [Fin 99, Fin 100, Fin 98]"

text \<open>Twenty volumes, the last one twice the others.\<close>

definition surge20 :: "jsnum list" where
  "surge20 = replicate 19 (Fin 1000) @ [Fin 2000]"

text \<open>
  The latest values that the indicators above give on the three series (shown below to
  be what \<open>computeLatest\<close> returns on them).
\<close>

definition flatLatest :: latest_values where
  "flatLatest =
     \<lparr>latestRSI = Some (Fin 100),
      latestMACD = Some \<lparr>MACD = Some (Fin 0), signalLine = Some (Fin 0),
                          histogram = Some (Fin 0)\<rparr>,
      latestBB = Some \<lparr>upper = Fin 100, middle = Fin 100, lower = Fin 100\<rparr>,
      latestSMA20 = Some (Fin 100), latestEMA12 = Some (Fin 100),
      currentPrice = Some (Fin 100)\<rparr>"

definition fallingLatest :: latest_values where
  "fallingLatest =
     \<lparr>latestRSI = Some (Fin 0),
      latestMACD = Some \<lparr>MACD = Some (Fin (- 7)), signalLine = Some (Fin (- 7)),
                          histogram = Some (Fin 0)\<rparr>,
      latestBB = Some \<lparr>upper = Fin (21 / 2 + 2 * sqrt (133 / 4)), middle = Fin (21 / 2),
                        lower = Fin (21 / 2 - 2 * sqrt (133 / 4))\<rparr>,
      latestSMA20 = Some (Fin (21 / 2)), latestEMA12 = Some (Fin (13 / 2)),
      currentPrice = Some (Fin 1)\<rparr>"

definition joltLatest :: latest_values where
  "joltLatest =
     \<lparr>latestRSI = Some (Fin (39200 / 561)),
      latestMACD = Some \<lparr>MACD = Some (Fin (- (1230796 / 43243551))),
                          signalLine = Some (Fin (- (208224268 / 5405443875))),
                          histogram = Some (Fin (54374768 / 5405443875))\<rparr>,
      latestBB = Some \<lparr>upper = Fin (1999 / 20 + 2 * sqrt (59 / 400)),
                        middle = Fin (1999 / 20),
                        lower = Fin (1999 / 20 - 2 * sqrt (59 / 400))\<rparr>,
      latestSMA20 = Some (Fin (1999 / 20)), latestEMA12 = Some (Fin (219510 / 2197)),
      currentPrice = Some (Fin 101)\<rparr>"

definition dipLatest :: latest_values where
  "dipLatest =
     \<lparr>latestRSI = Some (Fin (18200 / 743)),
      latestMACD = Some \<lparr>MACD = Some (Fin (- (8916292 / 43243551))),
                          signalLine = Some (Fin (- (331369108 / 5405443875))),
                          histogram = Some (Fin (- (783167392 / 5405443875)))\<rparr>,
      latestBB = Some \<lparr>upper = Fin (1997 / 20 + 2 * sqrt (91 / 400)),
                        middle = Fin (1997 / 20),
                        lower = Fin (1997 / 20 - 2 * sqrt (91 / 400))\<rparr>,
      latestSMA20 = Some (Fin (1997 / 20)), latestEMA12 = Some (Fin (218782 / 2197)),
      currentPrice = Some (Fin 98)\<rparr>"

text \<open>The order of the risk tiers: LOW below MEDIUM below HIGH.\<close>

definition tier :: "risk_level \<Rightarrow> nat" where
  "tier r = (case r of LOW \<Rightarrow> 0 | MEDIUM \<Rightarrow> 1 | HIGH \<Rightarrow> 2)"

section \<open>Properties\<close>

subsection \<open>The indicators on the three series\<close>

lemma windows_short: "length xs < n \<Longrightarrow> windows n xs = []"
  by (cases xs) simp_all

lemma latest_windows:
  "latest (map f (windows n xs)) =
     (if 0 < n \<and> n \<le> length xs then Some (f (slice_last n xs)) else None)"
proof (induction xs)
  case Nil
  then show ?case by (auto simp: latest_def)
next
  case (Cons x xs)
  show ?case
  proof (cases "0 < n \<and> n \<le> length xs")
    case True
    then have "map f (windows n xs) \<noteq> []"
      using Cons.IH by (auto simp: latest_def split: if_splits)
    moreover have "slice_last n (x # xs) = slice_last n xs"
      using True by (simp add: slice_last_def Suc_diff_le)
    ultimately show ?thesis
      using True Cons.IH by (simp add: latest_def)
  next
    case False
    then show ?thesis
      by (auto simp: latest_def slice_last_def windows_short)
  qed
qed

lemma computeLatest_specLib:
  "computeLatest specLib prices =
     Inr \<lparr>latestRSI = latest (rsi_series prices 14),
          latestMACD = latest (macd_series prices 12 26 9),
          latestBB = latest (bb_series prices 20 (Fin 2)),
          latestSMA20 = latest (sma prices 20),
          latestEMA12 = latest (ema prices 12),
          currentPrice = latest prices\<rparr>"
  by (simp add: computeLatest_def specLib_def)

lemmas series_defs = flat50_def falling60_def jolt50_def dip50_def surge20_def
lemmas number_defs = mean_def js_sum_def js_sub_def js_gt_def js_ge_def slice_last_def latest_def
lemmas ema_defs = ema_def ema_step_def macd_series_def
lemmas rsi_defs = rsi_series_def wilder_def deltas_def gain_def loss_def rsi_value_def

lemma flat50_rsi: "latest (rsi_series flat50 14) = Some (Fin 100)"
  by (simp add: series_defs rsi_defs number_defs eval_nat_numeral)

lemma flat50_macd: "latest (macd_series flat50 12 26 9) = latestMACD flatLatest"
  by (simp add: series_defs ema_defs number_defs flatLatest_def eval_nat_numeral)

lemma flat50_bb: "latest (bb_series flat50 20 (Fin 2)) = latestBB flatLatest"
  by (simp add: bb_series_def latest_windows)
     (simp add: series_defs bollinger_def stddev_def number_defs flatLatest_def eval_nat_numeral)

lemma flat50_sma: "latest (sma flat50 20) = Some (Fin 100)"
  by (simp add: sma_def latest_windows) (simp add: series_defs number_defs eval_nat_numeral)

lemma flat50_ema: "latest (ema flat50 12) = Some (Fin 100)"
  by (simp add: series_defs ema_defs number_defs eval_nat_numeral)

lemma flat50_price: "latest flat50 = Some (Fin 100)"
  by (simp add: series_defs latest_def)

lemma flat50_latest: "computeLatest specLib flat50 = Inr flatLatest"
  by (simp add: computeLatest_specLib flat50_rsi flat50_macd flat50_bb flat50_sma flat50_ema
      flat50_price flatLatest_def)

lemma falling60_rsi: "latest (rsi_series falling60 14) = Some (Fin 0)"
  by (simp add: series_defs rsi_defs number_defs)

lemma falling60_macd: "latest (macd_series falling60 12 26 9) = latestMACD fallingLatest"
  by (simp add: series_defs ema_defs number_defs fallingLatest_def)

lemma falling60_bb: "latest (bb_series falling60 20 (Fin 2)) = latestBB fallingLatest"
  by (simp add: bb_series_def latest_windows)
     (simp add: series_defs bollinger_def stddev_def number_defs fallingLatest_def eval_nat_numeral)

lemma falling60_sma: "latest (sma falling60 20) = Some (Fin (21 / 2))"
  by (simp add: sma_def latest_windows) (simp add: series_defs number_defs)

lemma falling60_ema: "latest (ema falling60 12) = Some (Fin (13 / 2))"
  by (simp add: series_defs ema_defs number_defs)

lemma falling60_price: "latest falling60 = Some (Fin 1)"
  by (simp add: series_defs latest_def)

lemma falling60_latest: "computeLatest specLib falling60 = Inr fallingLatest"
  by (simp add: computeLatest_specLib falling60_rsi falling60_macd falling60_bb falling60_sma
      falling60_ema falling60_price fallingLatest_def)

lemma jolt50_rsi: "latest (rsi_series jolt50 14) = Some (Fin (39200 / 561))"
  by (simp add: series_defs rsi_defs number_defs eval_nat_numeral)

lemma jolt50_macd: "latest (macd_series jolt50 12 26 9) = latestMACD joltLatest"
  by (simp add: series_defs ema_defs number_defs joltLatest_def eval_nat_numeral)

lemma jolt50_bb: "latest (bb_series jolt50 20 (Fin 2)) = latestBB joltLatest"
  by (simp add: bb_series_def latest_windows)
     (simp add: series_defs bollinger_def stddev_def number_defs joltLatest_def eval_nat_numeral)

lemma jolt50_sma: "latest (sma jolt50 20) = Some (Fin (1999 / 20))"
  by (simp add: sma_def latest_windows) (simp add: series_defs number_defs eval_nat_numeral)

lemma jolt50_ema: "latest (ema jolt50 12) = Some (Fin (219510 / 2197))"
  by (simp add: series_defs ema_defs number_defs eval_nat_numeral)

lemma jolt50_price: "latest jolt50 = Some (Fin 101)"
  by (simp add: series_defs latest_def)

lemma jolt50_latest: "computeLatest specLib jolt50 = Inr joltLatest"
  by (simp add: computeLatest_specLib jolt50_rsi jolt50_macd jolt50_bb jolt50_sma jolt50_ema
      jolt50_price joltLatest_def)

lemma dip50_rsi: "latest (rsi_series dip50 14) = Some (Fin (18200 / 743))"
  by (simp add: series_defs rsi_defs number_defs eval_nat_numeral)

lemma dip50_macd: "latest (macd_series dip50 12 26 9) = latestMACD dipLatest"
  by (simp add: series_defs ema_defs number_defs dipLatest_def eval_nat_numeral)

lemma dip50_bb: "latest (bb_series dip50 20 (Fin 2)) = latestBB dipLatest"
  by (simp add: bb_series_def latest_windows)
     (simp add: series_defs bollinger_def stddev_def number_defs dipLatest_def eval_nat_numeral)

lemma dip50_sma: "latest (sma dip50 20) = Some (Fin (1997 / 20))"
  by (simp add: sma_def latest_windows) (simp add: series_defs number_defs eval_nat_numeral)

lemma dip50_ema: "latest (ema dip50 12) = Some (Fin (218782 / 2197))"
  by (simp add: series_defs ema_defs number_defs eval_nat_numeral)

lemma dip50_price: "latest dip50 = Some (Fin 98)"
  by (simp add: series_defs latest_def)

lemma dip50_latest: "computeLatest specLib dip50 = Inr dipLatest"
  by (simp add: computeLatest_specLib dip50_rsi dip50_macd dip50_bb dip50_sma dip50_ema
      dip50_price dipLatest_def)

lemmas vote_defs = indicatorVotes_def rsiAnalysis_def macdAnalysis_def bollingerAnalysis_def
  maAnalysis_def noVotes_def voteBuy_def voteSell_def js_gt_def js_ge_def

lemma flat50_votes:
  "indicatorVotes specLib flatLatest =
     \<lparr>buySignals = 1, sellSignals = 2,
      reasons = [''RSI overbought at 100.00'', ''Price touching lower Bollinger Band'']\<rparr>"
  by (simp add: vote_defs flatLatest_def specLib_def decimal.simps digit_def)

lemma sqrt_falling: "19 / 4 < sqrt (133 / 4)"
  by (rule real_less_rsqrt) (simp add: power2_eq_square)

lemma falling60_votes:
  "indicatorVotes specLib fallingLatest =
     \<lparr>buySignals = 0, sellSignals = 1,
      reasons = [''Price below SMA20 with EMA12 bearish'']\<rparr>"
  using sqrt_falling by (simp add: vote_defs fallingLatest_def)

lemma sqrt_jolt: "sqrt (59 / 400) \<le> 21 / 40"
  by (rule real_le_lsqrt) (simp_all add: power2_eq_square)

lemma jolt50_votes:
  "indicatorVotes specLib joltLatest =
     \<lparr>buySignals = 1, sellSignals = 1,
      reasons = [''MACD bullish crossover'', ''Price touching upper Bollinger Band'']\<rparr>"
proof -
  have "0 \<le> sqrt (59 / 400 :: real)"
    by (rule real_sqrt_ge_zero) simp
  then have below: "\<not> 101 \<le> 1999 / 20 - 2 * sqrt (59 / 400 :: real)"
    by linarith
  have above: "1999 / 20 + 2 * sqrt (59 / 400 :: real) \<le> 101"
    using sqrt_jolt by linarith
  show ?thesis
    using below above by (simp add: vote_defs joltLatest_def)
qed

lemma sqrt_dip: "sqrt (91 / 400) \<le> 37 / 40"
  by (rule real_le_lsqrt) (simp_all add: power2_eq_square)

lemma dip50_fixed: "numberToFixed (Fin (18200 / 743)) 2 = ''24.50''"
  by (simp add: decimal.simps digit_def)

lemma dip50_votes:
  "indicatorVotes specLib dipLatest =
     \<lparr>buySignals = 3, sellSignals = 2,
      reasons = [''RSI oversold at 24.50'', ''MACD bearish crossover'',
                 ''Price touching lower Bollinger Band'',
                 ''Price below SMA20 with EMA12 bearish'']\<rparr>"
proof -
  have touch: "98 \<le> 1997 / 20 - 2 * sqrt (91 / 400 :: real)"
    using sqrt_dip by linarith
  have fixed: "toFixed specLib (Fin (18200 / 743)) 2 = ''24.50''"
    using dip50_fixed by (simp add: specLib_def)
  show ?thesis
    using touch by (simp add: vote_defs dipLatest_def fixed)
qed

lemma surge20_spike: "20 \<le> length surge20 \<and> volumeSpike surge20"
  by (simp add: volumeSpike_def series_defs number_defs eval_nat_numeral)


subsection \<open>The paths of getTradeSignal\<close>

lemma getTradeSignal_run:
  assumes "50 \<le> length prices" and "computeLatest e prices = Inr l"
  shows "getTradeSignal e now prices volumes =
           \<lparr>signal = fst (finalSignal (finalVotes e l volumes)),
            confidence = Math_round (fst (snd (finalSignal (finalVotes e l volumes)))),
            reason = snd (snd (finalSignal (finalVotes e l volumes))),
            indicators = snapshot l, timestamp = now\<rparr>"
  using assms
  by (simp add: getTradeSignal_def getTradeSignal_try_def split: prod.splits)

lemma getTradeSignal_thrown:
  assumes "50 \<le> length prices" and "computeLatest e prices = Inl x"
  shows "getTradeSignal e now prices volumes = errorSignal now"
  using assms by (simp add: getTradeSignal_def getTradeSignal_try_def)

lemma getTradeSignal_short:
  assumes "length prices < 50"
  shows "getTradeSignal e now prices volumes = insufficientData now"
  using assms by (simp add: getTradeSignal_def getTradeSignal_try_def)

lemma max_total:
  assumes "0 < t"
  shows "Math_max (Fin (real t)) (Fin 1) = Fin (real t)"
proof -
  have "1 \<le> real t" using assms by simp
  then show ?thesis by (auto simp: Math_max_def)
qed

lemma share_eq:
  assumes "0 < t"
  shows "share n t = Math_min (Fin 90) (js_mul (js_div (Fin (real n)) (Fin (real t))) (Fin 100))"
  by (simp only: share_def max_total [OF assms])

lemma share_value:
  assumes "0 < t"
  shows "share n t = Fin (min 90 (real n / real t * 100))"
  using assms by (simp add: share_eq Math_min_def min_def)

lemma round_share_range:
  assumes "0 < t" and "n \<le> t"
  shows "\<exists>k::int. Math_round (share n t) = Fin (of_int k) \<and> 0 \<le> k \<and> k \<le> 100"
proof -
  let ?x = "min 90 (real n / real t * 100)"
  have "0 \<le> ?x" by simp
  moreover have "?x \<le> 90" by simp
  ultimately have "0 \<le> \<lfloor>?x + 1 / 2\<rfloor>" and "\<lfloor>?x + 1 / 2\<rfloor> \<le> 100"
    by linarith+
  then show ?thesis
    using assms by (auto simp: share_value)
qed

lemma finalSignal_confidence_range:
  "\<exists>k::int. Math_round (fst (snd (finalSignal v))) = Fin (of_int k) \<and> 0 \<le> k \<and> k \<le> 100"
proof -
  have hold: "\<exists>k::int. Math_round (Fin 50) = Fin (of_int k) \<and> 0 \<le> k \<and> k \<le> 100"
    by (rule exI [of _ 50]) simp
  show ?thesis
    using hold round_share_range [of "buySignals v + sellSignals v" "buySignals v"]
      round_share_range [of "buySignals v + sellSignals v" "sellSignals v"]
    by (simp add: finalSignal_def Let_def)
qed

lemma round_two_thirds:
  "Math_round (Math_min (Fin 90) (js_mul (js_div (Fin 2) (Fin 3)) (Fin 100))) = Fin 67"
  by (simp add: Math_min_def)

lemma round_three_fifths:
  "Math_round (Math_min (Fin 90) (js_mul (js_div (Fin 3) (Fin 5)) (Fin 100))) = Fin 60"
  by (simp add: Math_min_def)

subsection \<open>The decision\<close>

text \<open>
  C1. Take a price series of at least 50 values on which the five library calls
  return, so that the votes are accumulated, and let \<open>b\<close> and \<open>s\<close> be the final
  \<open>buySignals\<close> and \<open>sellSignals\<close>. If \<open>b > s\<close> and \<open>b \<ge> 2\<close> the result is BUY with
  confidence \<open>round (min 90 (b / (b + s) * 100))\<close>; if \<open>s > b\<close> and \<open>s \<ge> 2\<close> it is SELL
  with confidence \<open>round (min 90 (s / (b + s) * 100))\<close>; in every other case it is HOLD
  with confidence 50.
\<close>

theorem getTradeSignal_decision:
  assumes "50 \<le> length prices"
    and "computeLatest e prices = Inr l"
    and "b = buySignals (finalVotes e l volumes)"
    and "s = sellSignals (finalVotes e l volumes)"
    and "r = getTradeSignal e now prices volumes"
  shows "(s < b \<and> 2 \<le> b \<longrightarrow>
            signal r = BUY \<and>
            confidence r = Math_round (Math_min (Fin 90)
              (js_mul (js_div (Fin (real b)) (Fin (real (b + s)))) (Fin 100))))
       \<and> (b < s \<and> 2 \<le> s \<longrightarrow>
            signal r = SELL \<and>
            confidence r = Math_round (Math_min (Fin 90)
              (js_mul (js_div (Fin (real s)) (Fin (real (b + s)))) (Fin 100))))
       \<and> (\<not> (s < b \<and> 2 \<le> b) \<and> \<not> (b < s \<and> 2 \<le> s) \<longrightarrow>
            signal r = HOLD \<and> confidence r = Fin 50)"
proof -
  let ?v = "finalVotes e l volumes"
  have run: "signal r = fst (finalSignal ?v)"
    "confidence r = Math_round (fst (snd (finalSignal ?v)))"
    using assms(5) getTradeSignal_run [OF assms(1,2)] by simp_all
  have buy: "signal r = BUY \<and> confidence r = Math_round (Math_min (Fin 90)
              (js_mul (js_div (Fin (real b)) (Fin (real (b + s)))) (Fin 100)))"
    if "s < b" "2 \<le> b"
  proof -
    have "0 < b + s" using that by simp
    then show ?thesis
      using that assms(3,4) run share_eq [of "b + s" b]
      by (simp add: finalSignal_def Let_def)
  qed
  have sell: "signal r = SELL \<and> confidence r = Math_round (Math_min (Fin 90)
              (js_mul (js_div (Fin (real s)) (Fin (real (b + s)))) (Fin 100)))"
    if "b < s" "2 \<le> s"
  proof -
    have "0 < b + s" using that by simp
    then show ?thesis
      using that assms(3,4) run share_eq [of "b + s" s]
      by (simp add: finalSignal_def Let_def)
  qed
  have hold: "signal r = HOLD \<and> confidence r = Fin 50"
    if "\<not> (s < b \<and> 2 \<le> b)" "\<not> (b < s \<and> 2 \<le> s)"
    using that assms(3,4) run by (auto simp: finalSignal_def Let_def)
  show ?thesis using buy sell hold by blast
qed

theorem getTradeSignal_decision_witness:
  "50 \<le> length dip50 \<and> computeLatest specLib dip50 = Inr dipLatest
   \<and> buySignals (finalVotes specLib dipLatest None) = 3
   \<and> sellSignals (finalVotes specLib dipLatest None) = 2
   \<and> signal (getTradeSignal specLib 0 dip50 None) = BUY
   \<and> confidence (getTradeSignal specLib 0 dip50 None) = Fin 60
   \<and> 50 \<le> length flat50 \<and> computeLatest specLib flat50 = Inr flatLatest
   \<and> buySignals (finalVotes specLib flatLatest None) = 1
   \<and> sellSignals (finalVotes specLib flatLatest None) = 2
   \<and> signal (getTradeSignal specLib 0 flat50 None) = SELL
   \<and> confidence (getTradeSignal specLib 0 flat50 None) = Fin 67
   \<and> 50 \<le> length falling60 \<and> computeLatest specLib falling60 = Inr fallingLatest
   \<and> buySignals (finalVotes specLib fallingLatest None) = 0
   \<and> sellSignals (finalVotes specLib fallingLatest None) = 1
   \<and> signal (getTradeSignal specLib 0 falling60 None) = HOLD
   \<and> confidence (getTradeSignal specLib 0 falling60 None) = Fin 50"
proof -
  have len: "50 \<le> length dip50" "50 \<le> length flat50" "50 \<le> length falling60"
    by (simp_all add: series_defs)
  have votes: "buySignals (finalVotes specLib dipLatest None) = 3"
    "sellSignals (finalVotes specLib dipLatest None) = 2"
    "buySignals (finalVotes specLib flatLatest None) = 1"
    "sellSignals (finalVotes specLib flatLatest None) = 2"
    "buySignals (finalVotes specLib fallingLatest None) = 0"
    "sellSignals (finalVotes specLib fallingLatest None) = 1"
    by (simp_all add: finalVotes_def volumeAnalysis_def dip50_votes flat50_votes
        falling60_votes)
  have buy: "signal (getTradeSignal specLib 0 dip50 None) = BUY
      \<and> confidence (getTradeSignal specLib 0 dip50 None) = Fin 60"
    using getTradeSignal_decision [OF len(1) dip50_latest refl refl refl, of None 0]
      votes round_three_fifths
    by simp
  have sell: "signal (getTradeSignal specLib 0 flat50 None) = SELL
      \<and> confidence (getTradeSignal specLib 0 flat50 None) = Fin 67"
    using getTradeSignal_decision [OF len(2) flat50_latest refl refl refl, of None 0]
      votes round_two_thirds
    by simp
  have hold: "signal (getTradeSignal specLib 0 falling60 None) = HOLD
      \<and> confidence (getTradeSignal specLib 0 falling60 None) = Fin 50"
    using getTradeSignal_decision [OF len(3) falling60_latest refl refl refl, of None 0]
      votes
    by simp
  show ?thesis
    using len votes buy sell hold dip50_latest flat50_latest falling60_latest by simp
qed

subsection \<open>Ranges\<close>

text \<open>
  C2. Whatever the library, the clock, the prices, the volumes and the signal are, the
  confidence that getTradeSignal returns is an integer between 0 and 100, and the
  riskLevel that getRiskAssessment returns is one of LOW, MEDIUM and HIGH.
\<close>

theorem confidence_and_riskLevel_range:
  "(\<exists>k::int. confidence (getTradeSignal e now prices volumes) = Fin (of_int k)
        \<and> 0 \<le> k \<and> k \<le> 100)
   \<and> riskLevel (getRiskAssessment prices s) \<in> {LOW, MEDIUM, HIGH}"
proof
  show "\<exists>k::int. confidence (getTradeSignal e now prices volumes) = Fin (of_int k)
        \<and> 0 \<le> k \<and> k \<le> 100"
  proof (cases "length prices < 50")
    case True
    then have "confidence (getTradeSignal e now prices volumes) = Fin (of_int 0)"
      by (simp add: getTradeSignal_short insufficientData_def)
    then show ?thesis by (intro exI [of _ 0]) simp
  next
    case False
    then have len: "50 \<le> length prices" by simp
    show ?thesis
    proof (cases "computeLatest e prices")
      case (Inl x)
      then have "confidence (getTradeSignal e now prices volumes) = Fin (of_int 0)"
        using len by (simp add: getTradeSignal_thrown errorSignal_def)
      then show ?thesis by (intro exI [of _ 0]) simp
    next
      case (Inr l)
      then show ?thesis
        using len finalSignal_confidence_range [of "finalVotes e l volumes"]
        by (simp add: getTradeSignal_run)
    qed
  qed
next
  show "riskLevel (getRiskAssessment prices s) \<in> {LOW, MEDIUM, HIGH}"
    by (cases "riskLevel (getRiskAssessment prices s)") simp_all
qed

subsection \<open>Too few prices\<close>

text \<open>
  C3. A price series of fewer than 50 values gets, whatever the library and the volumes
  are, the result of the length guard: HOLD, confidence 0, the insufficient-data reason,
  and a snapshot with rsi 0, macd null, bollingerBands null, sma20 0 and ema12 0. The
  result is returned by the \<open>try\<close> body itself, not by the \<open>catch\<close> block, whose reason
  is a different text.
\<close>

theorem getTradeSignal_insufficient_data:
  assumes "length prices < 50"
  shows "getTradeSignal_try e now prices volumes = Inr (getTradeSignal e now prices volumes)
       \<and> signal (getTradeSignal e now prices volumes) = HOLD
       \<and> confidence (getTradeSignal e now prices volumes) = Fin 0
       \<and> reason (getTradeSignal e now prices volumes)
           = ''Insufficient data for analysis (minimum 50 data points required)''
       \<and> reason (getTradeSignal e now prices volumes) \<noteq> reason (errorSignal now)
       \<and> indicators (getTradeSignal e now prices volumes)
           = \<lparr>rsi = Fin 0, macd = None, bollingerBands = None, sma20 = Fin 0, ema12 = Fin 0\<rparr>"
  using assms
  by (simp add: getTradeSignal_def getTradeSignal_try_def insufficientData_def
      errorSignal_def noIndicators_def)

theorem getTradeSignal_insufficient_data_witness:
  "length [Fin 100, Fin 101, Fin 99] < 50
   \<and> signal (getTradeSignal specLib 0 [Fin 100, Fin 101, Fin 99] None) = HOLD
   \<and> confidence (getTradeSignal specLib 0 [Fin 100, Fin 101, Fin 99] None) = Fin 0
   \<and> rsi (indicators (getTradeSignal specLib 0 [Fin 100, Fin 101, Fin 99] None)) = Fin 0
   \<and> macd (indicators (getTradeSignal specLib 0 [Fin 100, Fin 101, Fin 99] None)) = None"
proof -
  have len: "length [Fin 100, Fin 101, Fin 99] < 50" by simp
  show ?thesis
    using getTradeSignal_insufficient_data [OF len, of specLib 0 None] by simp
qed

subsection \<open>Risk\<close>

lemma getRiskAssessment_eq:
  "getRiskAssessment prices s =
     \<lparr>riskLevel = fst (adjust s (baseRisk (volatilityOf prices))),
      volatility = js_div (Math_round (js_mul (volatilityOf prices) (Fin 100))) (Fin 100),
      recommendation = snd (adjust s (baseRisk (volatilityOf prices)))\<rparr>"
  by (simp add: getRiskAssessment_def getRiskAssessment_try_def Let_def split: prod.splits)

text \<open>
  C4. When the confidence of the signal is below 60, the returned riskLevel is the tier
  of the volatility moved up by one: LOW becomes MEDIUM, MEDIUM and HIGH become HIGH, so
  that it is strictly higher than a base tier of LOW or MEDIUM; and the recommendation
  is the text of the base tier with the caution clause appended.
\<close>

theorem low_confidence_escalates:
  assumes "js_lt (confidence s) (Fin 60)"
    and "base = fst (baseRisk (volatilityOf prices))"
    and "r = getRiskAssessment prices s"
  shows "(base = LOW \<longrightarrow> riskLevel r = MEDIUM)
       \<and> (base = MEDIUM \<or> base = HIGH \<longrightarrow> riskLevel r = HIGH)
       \<and> (base = LOW \<or> base = MEDIUM \<longrightarrow> tier base < tier (riskLevel r))
       \<and> recommendation r = snd (baseRisk (volatilityOf prices))
            @ '' Low signal confidence suggests increased caution.''"
  using assms
  by (cases "baseRisk (volatilityOf prices)")
     (auto simp: getRiskAssessment_eq adjust_def tier_def)

theorem low_confidence_escalates_witness:
  "js_lt (confidence (insufficientData 0)) (Fin 60)
   \<and> fst (baseRisk (volatilityOf [Fin 100, Fin 100, Fin 100])) = LOW
   \<and> riskLevel (getRiskAssessment [Fin 100, Fin 100, Fin 100] (insufficientData 0)) = MEDIUM
   \<and> recommendation (getRiskAssessment [Fin 100, Fin 100, Fin 100] (insufficientData 0))
       = ''Market showing low volatility. Good for conservative strategies. Low signal confidence suggests increased caution.''"
proof -
  have low: "js_lt (confidence (insufficientData 0)) (Fin 60)"
    by (simp add: insufficientData_def)
  have vol: "volatilityOf [Fin 100, Fin 100, Fin 100] = Fin 0"
    by (simp add: volatilityOf_def returnsOf_def js_sum_def js_sub_def eval_nat_numeral)
  have base: "baseRisk (volatilityOf [Fin 100, Fin 100, Fin 100])
      = (LOW, ''Market showing low volatility. Good for conservative strategies.'')"
    by (simp add: vol baseRisk_def)
  show ?thesis
    using low_confidence_escalates [OF low refl refl, of "[Fin 100, Fin 100, Fin 100]"] low base
    by simp
qed

lemma volatilityOf_degenerate:
  assumes "length prices \<le> 1"
  shows "volatilityOf prices = NaN"
proof -
  have "returnsOf prices = []"
    using assms by (cases prices) (simp_all add: returnsOf_def)
  then show ?thesis
    by (simp add: volatilityOf_def js_sum_def)
qed

lemma getRiskAssessment_never_falls_back:
  "\<exists>r. getRiskAssessment_try prices s = Inr r"
  by (simp add: getRiskAssessment_try_def Let_def split: prod.splits)

text \<open>
  C5. On an empty or single-element price series there is no return, both means are
  \<open>0 / 0\<close>, and nothing throws: the \<open>catch\<close> block is not entered. The result has
  riskLevel HIGH because both comparisons with NaN fail, its volatility is NaN, not the
  0 of the fallback, and its recommendation is the high-volatility warning (with the
  caution clause when the confidence is below 60), not the unable-to-assess text of the
  fallback.
\<close>

theorem getRiskAssessment_degenerate:
  assumes "length prices \<le> 1"
  shows "riskLevel (getRiskAssessment prices s) = HIGH
       \<and> volatility (getRiskAssessment prices s) = NaN
       \<and> volatility (getRiskAssessment prices s) \<noteq> volatility riskFallback
       \<and> recommendation (getRiskAssessment prices s) =
           ''High volatility warning! Consider reducing position size or waiting for stability.''
           @ (if js_lt (confidence s) (Fin 60)
              then '' Low signal confidence suggests increased caution.'' else [])
       \<and> recommendation (getRiskAssessment prices s) \<noteq> recommendation riskFallback"
  by (simp add: getRiskAssessment_eq volatilityOf_degenerate [OF assms] baseRisk_def
      adjust_def riskFallback_def)

theorem getRiskAssessment_degenerate_witness:
  "length ([] :: jsnum list) \<le> 1
   \<and> getRiskAssessment [] (insufficientData 0) =
       \<lparr>riskLevel = HIGH, volatility = NaN,
        recommendation = ''High volatility warning! Consider reducing position size or waiting for stability. Low signal confidence suggests increased caution.''\<rparr>"
  using getRiskAssessment_degenerate [of "[]" "insufficientData 0"]
  by (cases "getRiskAssessment [] (insufficientData 0)") (simp add: insufficientData_def)

subsection \<open>Determinism\<close>

lemma getTradeSignal_clock:
  "getTradeSignal e now prices volumes = (getTradeSignal e 0 prices volumes)\<lparr>timestamp := now\<rparr>"
  by (simp add: getTradeSignal_def getTradeSignal_try_def insufficientData_def errorSignal_def
      split: sum.splits prod.splits)

lemma getRiskAssessment_confidence_only:
  assumes "confidence s = confidence s'"
  shows "getRiskAssessment prices s = getRiskAssessment prices s'"
  using assms by (simp add: getRiskAssessment_eq adjust_def)

text \<open>
  C6, as stated: two calls of getTradeSignal on identical inputs return identical values
  in every field. The timestamp is read from the clock at each call, so two calls on the
  same (here empty) series at different times return different results.
\<close>

theorem getTradeSignal_timestamp_differs:
  "getTradeSignal specLib 0 [] None \<noteq> getTradeSignal specLib 1 [] None"
  by (simp add: getTradeSignal_def getTradeSignal_try_def insufficientData_def)

text \<open>
  C6, amended. Two calls of getTradeSignal on identical inputs return the same signal,
  confidence, reason and indicators; the timestamp is the clock reading of the call.
  getRiskAssessment is a function of its inputs that reads the signal's confidence only,
  so the assessments of the two signals are identical in every field.
\<close>

theorem deterministic_up_to_timestamp:
  "signal (getTradeSignal e t prices volumes) = signal (getTradeSignal e t' prices volumes)
   \<and> confidence (getTradeSignal e t prices volumes)
       = confidence (getTradeSignal e t' prices volumes)
   \<and> reason (getTradeSignal e t prices volumes) = reason (getTradeSignal e t' prices volumes)
   \<and> indicators (getTradeSignal e t prices volumes)
       = indicators (getTradeSignal e t' prices volumes)
   \<and> timestamp (getTradeSignal e t prices volumes) = t
   \<and> getRiskAssessment prices (getTradeSignal e t prices volumes)
       = getRiskAssessment prices (getTradeSignal e t' prices volumes)"
proof -
  define s0 where "s0 = getTradeSignal e 0 prices volumes"
  have a: "getTradeSignal e t prices volumes = s0\<lparr>timestamp := t\<rparr>"
    unfolding s0_def by (rule getTradeSignal_clock)
  have b: "getTradeSignal e t' prices volumes = s0\<lparr>timestamp := t'\<rparr>"
    unfolding s0_def by (rule getTradeSignal_clock)
  have "getRiskAssessment prices (s0\<lparr>timestamp := t\<rparr>)
      = getRiskAssessment prices (s0\<lparr>timestamp := t'\<rparr>)"
    by (rule getRiskAssessment_confidence_only) simp
  then show ?thesis
    unfolding a b by simp
qed

subsection \<open>The RSI vote\<close>

text \<open>
  C7. The RSI test is \<open>latestRSI && latestRSI < 30\<close>, and 0 is falsy: an RSI of 0 is
  strictly below 30 and still adds nothing to \<open>buySignals\<close>: it votes as an undefined
  RSI does, not at all. This holds for every library and every state of the vote.
\<close>

theorem rsi_zero_casts_no_vote:
  "js_lt (toNumber (Some (Fin 0))) (Fin 30)
   \<and> rsiAnalysis e (Some (Fin 0)) v = v
   \<and> rsiAnalysis e (Some (Fin 0)) v = rsiAnalysis e None v
   \<and> buySignals (rsiAnalysis e (Some (Fin 0)) v) \<noteq> buySignals v + 2"
  by (simp add: rsiAnalysis_def)

text \<open>Every other RSI value votes as the rule says.\<close>

lemma rsiAnalysis_truthy:
  assumes "truthy r"
  shows "(js_lt (toNumber r) (Fin 30) \<longrightarrow>
            buySignals (rsiAnalysis e r v) = buySignals v + 2
            \<and> sellSignals (rsiAnalysis e r v) = sellSignals v)
       \<and> (js_gt (toNumber r) (Fin 70) \<longrightarrow>
            sellSignals (rsiAnalysis e r v) = sellSignals v + 2
            \<and> buySignals (rsiAnalysis e r v) = buySignals v)
       \<and> (js_ge (toNumber r) (Fin 30) \<and> js_le (toNumber r) (Fin 70) \<longrightarrow>
            rsiAnalysis e r v = v)"
  using assms
  by (cases r rule: truthy.cases)
     (auto simp: rsiAnalysis_def voteBuy_def voteSell_def js_gt_def js_ge_def)

subsection \<open>Sixty falling prices\<close>

lemma macdAnalysis_one_vote:
  "(buySignals (macdAnalysis m v) = buySignals v \<or> buySignals (macdAnalysis m v) = buySignals v + 1)
   \<and> sellSignals v \<le> sellSignals (macdAnalysis m v)"
  by (simp add: macdAnalysis_def voteBuy_def voteSell_def split: option.splits)

lemma volumeAnalysis_behind:
  assumes "buySignals v \<le> sellSignals v"
  shows "buySignals (volumeAnalysis w v) = buySignals v
       \<and> sellSignals v \<le> sellSignals (volumeAnalysis w v)"
  using assms by (cases w) (simp_all add: volumeAnalysis_def voteSell_def)

lemma falling60_tail:
  "bollingerAnalysis (currentPrice fallingLatest) (latestBB fallingLatest) v = v"
  "maAnalysis (currentPrice fallingLatest) (latestSMA20 fallingLatest)
     (latestEMA12 fallingLatest) v
     = voteSell 1 ''Price below SMA20 with EMA12 bearish'' v"
  using sqrt_falling
  by (simp_all add: bollingerAnalysis_def maAnalysis_def fallingLatest_def js_gt_def js_ge_def)

lemma falling60_any_macd_votes:
  assumes "l = fallingLatest\<lparr>latestMACD := m\<rparr>"
  shows "buySignals (finalVotes e l w) \<le> 1 \<and> 1 \<le> sellSignals (finalVotes e l w)"
proof -
  let ?v = "macdAnalysis m (rsiAnalysis e (Some (Fin 0)) noVotes)"
  have start: "rsiAnalysis e (Some (Fin 0)) noVotes = noVotes"
    by (simp add: rsiAnalysis_def)
  have mv: "buySignals ?v \<le> 1"
    unfolding start using macdAnalysis_one_vote [of m noVotes] by (auto simp: noVotes_def)
  have iv: "indicatorVotes e l = voteSell 1 ''Price below SMA20 with EMA12 bearish'' ?v"
    using falling60_tail [of ?v] by (simp add: assms indicatorVotes_def fallingLatest_def)
  have "buySignals (indicatorVotes e l) \<le> sellSignals (indicatorVotes e l)"
    and "buySignals (indicatorVotes e l) \<le> 1" and "1 \<le> sellSignals (indicatorVotes e l)"
    using mv by (simp_all add: iv voteSell_def)
  then show ?thesis
    using volumeAnalysis_behind [of "indicatorVotes e l" w] by (simp add: finalVotes_def)
qed

lemma not_buy_below_two:
  assumes "buySignals v \<le> 1"
  shows "fst (finalSignal v) \<noteq> BUY"
  using assms by (simp add: finalSignal_def Let_def)

lemma falling60_length: "length falling60 = 60"
  by (simp add: falling60_def)

lemma falling60_any_macd:
  "signal (getTradeSignal (specLib\<lparr>MACD_calculate := f\<rparr>) now falling60 w) \<noteq> BUY"
proof (cases "f falling60 12 26 9 False False")
  case (Inl x)
  then have "computeLatest (specLib\<lparr>MACD_calculate := f\<rparr>) falling60 = Inl x"
    by (simp add: computeLatest_def specLib_def)
  then show ?thesis
    by (simp add: getTradeSignal_thrown falling60_length errorSignal_def)
next
  case (Inr ms)
  then have "computeLatest (specLib\<lparr>MACD_calculate := f\<rparr>) falling60
      = Inr (fallingLatest\<lparr>latestMACD := latest ms\<rparr>)"
    using falling60_latest
    by (simp add: computeLatest_def specLib_def fallingLatest_def)
  then show ?thesis
    using falling60_any_macd_votes [OF refl, of "specLib\<lparr>MACD_calculate := f\<rparr>" "latest ms" w]
    by (simp add: getTradeSignal_run falling60_length not_buy_below_two)
qed

text \<open>
  C8. On the sixty prices falling from 60 to 1 in unit steps the indicators give an RSI
  of 0, a MACD line equal to its signal, bands that the price does not touch, and a
  price and an EMA12 below the SMA20. The RSI, at its minimum, casts no vote because 0
  is falsy; the one vote is the moving-average vote for selling. Without volumes
  \<open>buySignals\<close> is 0, \<open>sellSignals\<close> is 1 and the result is HOLD: it is not BUY, and
  \<open>buySignals\<close> is below \<open>sellSignals\<close>. The result is not BUY with any volumes \<open>w\<close>
  either, nor with any other MACD function \<open>f\<close> in place of the modelled one.
\<close>

theorem falling60_never_buy:
  "length falling60 = 60
   \<and> computeLatest specLib falling60 = Inr fallingLatest
   \<and> latestRSI fallingLatest = Some (Fin 0)
   \<and> finalVotes specLib fallingLatest None
       = \<lparr>buySignals = 0, sellSignals = 1,
          reasons = [''Price below SMA20 with EMA12 bearish'']\<rparr>
   \<and> buySignals (finalVotes specLib fallingLatest None)
       < sellSignals (finalVotes specLib fallingLatest None)
   \<and> signal (getTradeSignal specLib now falling60 None) = HOLD
   \<and> signal (getTradeSignal specLib now falling60 w) \<noteq> BUY
   \<and> signal (getTradeSignal (specLib\<lparr>MACD_calculate := f\<rparr>) now falling60 w) \<noteq> BUY"
proof -
  have votes: "finalVotes specLib fallingLatest None
       = \<lparr>buySignals = 0, sellSignals = 1,
          reasons = [''Price below SMA20 with EMA12 bearish'']\<rparr>"
    by (simp add: finalVotes_def volumeAnalysis_def falling60_votes)
  then have hold: "signal (getTradeSignal specLib now falling60 None) = HOLD"
    by (simp add: getTradeSignal_run [OF _ falling60_latest] falling60_length finalSignal_def)
  have "buySignals (finalVotes specLib fallingLatest w) \<le> 1"
    using falling60_any_macd_votes [of fallingLatest "latestMACD fallingLatest" specLib w]
    by simp
  then have "signal (getTradeSignal specLib now falling60 w) \<noteq> BUY"
    by (simp add: getTradeSignal_run [OF _ falling60_latest] falling60_length not_buy_below_two)
  then show ?thesis
    using votes hold falling60_any_macd [of f now w]
    by (simp add: falling60_length falling60_latest fallingLatest_def)
qed

subsection \<open>Volume\<close>

text \<open>
  C9. When \<open>buySignals\<close> equals \<open>sellSignals\<close> just before the volume check, and the
  volume series has at least 20 values of which the last exceeds one and a half times
  the mean of the last 20, the volume rule changes nothing, the scores stay equal and
  the result is HOLD. In general (any votes \<open>v\<close>, any volumes \<open>w\<close>) the rule leaves a
  score as it is or adds one to the score that is strictly ahead.
\<close>

theorem volume_never_breaks_tie:
  assumes "50 \<le> length prices"
    and "computeLatest e prices = Inr l"
    and "buySignals (indicatorVotes e l) = sellSignals (indicatorVotes e l)"
    and "20 \<le> length vs"
    and "volumeSpike vs"
  shows "volumeAnalysis (Some vs) (indicatorVotes e l) = indicatorVotes e l
       \<and> buySignals (finalVotes e l (Some vs)) = sellSignals (finalVotes e l (Some vs))
       \<and> signal (getTradeSignal e now prices (Some vs)) = HOLD
       \<and> (buySignals (volumeAnalysis w v) = buySignals v
            \<or> (sellSignals v < buySignals v
                \<and> buySignals (volumeAnalysis w v) = buySignals v + 1))
       \<and> (sellSignals (volumeAnalysis w v) = sellSignals v
            \<or> (buySignals v < sellSignals v
                \<and> sellSignals (volumeAnalysis w v) = sellSignals v + 1))"
proof -
  have same: "volumeAnalysis (Some vs) (indicatorVotes e l) = indicatorVotes e l"
    using assms(3) by (simp add: volumeAnalysis_def)
  then have tie: "buySignals (finalVotes e l (Some vs)) = sellSignals (finalVotes e l (Some vs))"
    using assms(3) by (simp add: finalVotes_def)
  then have "fst (finalSignal (finalVotes e l (Some vs))) = HOLD"
    by (simp add: finalSignal_def)
  then have hold: "signal (getTradeSignal e now prices (Some vs)) = HOLD"
    by (simp add: getTradeSignal_run [OF assms(1,2)])
  have leader: "(buySignals (volumeAnalysis w v) = buySignals v
            \<or> (sellSignals v < buySignals v
                \<and> buySignals (volumeAnalysis w v) = buySignals v + 1))
       \<and> (sellSignals (volumeAnalysis w v) = sellSignals v
            \<or> (buySignals v < sellSignals v
                \<and> sellSignals (volumeAnalysis w v) = sellSignals v + 1))"
    by (cases w) (simp_all add: volumeAnalysis_def voteBuy_def voteSell_def)
  show ?thesis using same tie hold leader by blast
qed

theorem volume_never_breaks_tie_witness:
  "50 \<le> length jolt50
   \<and> computeLatest specLib jolt50 = Inr joltLatest
   \<and> buySignals (indicatorVotes specLib joltLatest) = 1
   \<and> sellSignals (indicatorVotes specLib joltLatest) = 1
   \<and> 20 \<le> length surge20 \<and> volumeSpike surge20
   \<and> buySignals (finalVotes specLib joltLatest (Some surge20)) = 1
   \<and> sellSignals (finalVotes specLib joltLatest (Some surge20)) = 1
   \<and> signal (getTradeSignal specLib 0 jolt50 (Some surge20)) = HOLD"
proof -
  have len: "50 \<le> length jolt50" by (simp add: jolt50_def)
  have tie: "buySignals (indicatorVotes specLib joltLatest)
      = sellSignals (indicatorVotes specLib joltLatest)"
    by (simp add: jolt50_votes)
  have vol: "20 \<le> length surge20" and spike: "volumeSpike surge20"
    using surge20_spike by simp_all
  show ?thesis
    using volume_never_breaks_tie [OF len jolt50_latest tie vol spike, of 0]
      len jolt50_latest vol spike
    by (simp add: finalVotes_def jolt50_votes)
qed

subsection \<open>Bollinger bands\<close>

text \<open>
  C10. The Bollinger check is an \<open>if\<close> with an \<open>else if\<close>: when the current price is
  both at or below the lower band and at or above the upper band, as on a constant
  series whose bands collapse, it adds one to \<open>buySignals\<close>, leaves \<open>sellSignals\<close> as it
  was and records the lower-band reason only. On any input (price \<open>p\<close>, bands \<open>b\<close>,
  votes \<open>u\<close>) it adds at most one vote.
\<close>

theorem bollinger_buy_precedence:
  assumes "50 \<le> length prices"
    and "computeLatest e prices = Inr l"
    and "latestBB l = Some bb"
    and "js_le (toNumber (currentPrice l)) (lower bb)"
    and "js_ge (toNumber (currentPrice l)) (upper bb)"
    and "v = macdAnalysis (latestMACD l) (rsiAnalysis e (latestRSI l) noVotes)"
  shows "buySignals (bollingerAnalysis (currentPrice l) (latestBB l) v) = buySignals v + 1
       \<and> sellSignals (bollingerAnalysis (currentPrice l) (latestBB l) v) = sellSignals v
       \<and> reasons (bollingerAnalysis (currentPrice l) (latestBB l) v)
           = reasons v @ [''Price touching lower Bollinger Band'']
       \<and> buySignals (bollingerAnalysis p b u) + sellSignals (bollingerAnalysis p b u)
           \<le> buySignals u + sellSignals u + 1"
proof -
  have one: "buySignals (bollingerAnalysis p b u) + sellSignals (bollingerAnalysis p b u)
           \<le> buySignals u + sellSignals u + 1"
    by (cases b) (simp_all add: bollingerAnalysis_def voteBuy_def voteSell_def)
  show ?thesis
    using assms(3,4) one by (simp add: bollingerAnalysis_def voteBuy_def)
qed

theorem bollinger_buy_precedence_witness:
  "50 \<le> length flat50
   \<and> computeLatest specLib flat50 = Inr flatLatest
   \<and> latestBB flatLatest = Some \<lparr>upper = Fin 100, middle = Fin 100, lower = Fin 100\<rparr>
   \<and> js_le (toNumber (currentPrice flatLatest)) (Fin 100)
   \<and> js_ge (toNumber (currentPrice flatLatest)) (Fin 100)
   \<and> buySignals (bollingerAnalysis (currentPrice flatLatest) (latestBB flatLatest)
        (macdAnalysis (latestMACD flatLatest)
           (rsiAnalysis specLib (latestRSI flatLatest) noVotes))) = 1
   \<and> sellSignals (bollingerAnalysis (currentPrice flatLatest) (latestBB flatLatest)
        (macdAnalysis (latestMACD flatLatest)
           (rsiAnalysis specLib (latestRSI flatLatest) noVotes))) = 2"
proof -
  have len: "50 \<le> length flat50" by (simp add: flat50_def)
  have bb: "latestBB flatLatest = Some \<lparr>upper = Fin 100, middle = Fin 100, lower = Fin 100\<rparr>"
    by (simp add: flatLatest_def)
  have lo: "js_le (toNumber (currentPrice flatLatest))
      (lower \<lparr>upper = Fin 100, middle = Fin 100, lower = Fin 100\<rparr>)"
    by (simp add: flatLatest_def)
  have up: "js_ge (toNumber (currentPrice flatLatest))
      (upper \<lparr>upper = Fin 100, middle = Fin 100, lower = Fin 100\<rparr>)"
    by (simp add: flatLatest_def js_ge_def)
  have before: "macdAnalysis (latestMACD flatLatest)
      (rsiAnalysis specLib (latestRSI flatLatest) noVotes)
      = \<lparr>buySignals = 0, sellSignals = 2, reasons = [''RSI overbought at 100.00'']\<rparr>"
    by (simp add: vote_defs flatLatest_def specLib_def decimal.simps digit_def)
  show ?thesis
    using bollinger_buy_precedence [OF len flat50_latest bb lo up refl]
      len flat50_latest bb lo up before
    by simp
qed

end
